theory Spec2Isabelle
  imports Complex_Main
begin

section \<open>The location channel of coco-track: LocationService\<close>

text \<open>
  The class \<^verbatim>\<open>LocationService\<close> (the variant with demo mode; the variant under
  \<^verbatim>\<open>src/services\<close> is the same class without the demo fields, without the fallback timer
  in \<^verbatim>\<open>connect\<close> and without the two demo methods) is embedded as functions on one
  record: the fields of the class, extended by what the class does to its surroundings
  (transports created by \<^verbatim>\<open>io\<close>, calls made on them, callbacks invoked, errors written to
  the console, timers armed).

  JavaScript values are a datatype; numbers are exact reals (no rounding, no NaN).
  A subscriber callback is a handle (compared by identity, as \<^verbatim>\<open>!==\<close> does) together
  with a behaviour, a function of the calls made so far, the handle and the sample: the
  unsubscribe functions the callback calls while it runs, and whether it then throws.
  Other calls from inside a callback back into the service are outside the model.
  What the platform returns (\<^verbatim>\<open>Date.now()\<close>, \<^verbatim>\<open>new Date().toISOString()\<close>,
  \<^verbatim>\<open>Math.random()\<close>) is an argument of the function that reads it.
\<close>

subsection \<open>Values, samples, surroundings\<close>

datatype jsval = JUndefined | JNull | JBool bool | JNum real | JStr string

fun truthy :: "jsval \<Rightarrow> bool" where
  "truthy JUndefined = False"
| "truthy JNull = False"
| "truthy (JBool b) = b"
| "truthy (JNum x) = (x \<noteq> 0)"
| "truthy (JStr s) = (s \<noteq> [])"

definition js_or :: "jsval \<Rightarrow> jsval \<Rightarrow> jsval" where
  "js_or a b = (if truthy a then a else b)"

fun is_number :: "jsval \<Rightarrow> bool" where
  "is_number (JNum x) = True"
| "is_number v = False"

fun is_defined :: "jsval \<Rightarrow> bool" where
  "is_defined JUndefined = False"
| "is_defined v = True"

text \<open>A location object; a field the object does not have reads as \<open>JUndefined\<close>.\<close>

record location =
  latitude :: jsval
  longitude :: jsval
  timestamp :: jsval
  accuracy :: jsval
  isBroadcasting :: jsval
  demo :: jsval

datatype out_event = UpdateLocation location | BroadcastStatus bool

datatype socket_call = SocketConnect | SocketDisconnect | Emit out_event

datatype console_error =
  ConnectionError | ReconnectFailed | ListenerError nat
| CannotSendLocation | CannotSendBroadcastStatus

datatype exn = TypeError | CallbackError nat

text \<open>The local variables captured by the interval callback of \<^verbatim>\<open>enableDemoMode\<close>.\<close>

record sim =
  sim_latitude :: real
  sim_longitude :: real
  direction :: real

text \<open>
  What callbacks do when called: \<open>unsubscribes\<close> gives the handles whose unsubscribe
  function the callback calls, in order, \<open>throws\<close> whether it ends by throwing.
\<close>

record behaviour =
  throws :: "(nat \<times> location) list \<Rightarrow> nat \<Rightarrow> location \<Rightarrow> bool"
  unsubscribes :: "(nat \<times> location) list \<Rightarrow> nat \<Rightarrow> location \<Rightarrow> nat list"

record LocationService =
  socket :: "nat option"
  isConnected :: bool
  listeners :: "nat list"
  reconnectAttempts :: nat
  maxReconnectAttempts :: nat
  currentLocation :: "location option"
  demoMode :: bool
  demoInterval :: "nat option"

text \<open>
  \<open>transports\<close>: the urls \<^verbatim>\<open>io\<close> was called with, a socket being its index;
  \<open>socketCalls\<close>: the methods called on sockets; \<open>invoked\<close>: the callback calls made;
  \<open>console\<close>: the \<^verbatim>\<open>console.error\<close> lines; \<open>timeouts\<close>: the pending 3000 ms timers
  of \<^verbatim>\<open>connect\<close>; \<open>intervals\<close>: the running 5000 ms intervals, each with its captured
  variables; \<open>nextTimer\<close>: the next interval id (ids are positive, hence truthy).
\<close>

record world = LocationService +
  transports :: "string list"
  socketCalls :: "(nat \<times> socket_call) list"
  invoked :: "(nat \<times> location) list"
  console :: "console_error list"
  timeouts :: nat
  intervals :: "(nat \<times> sim) list"
  nextTimer :: nat

definition new_LocationService :: world where
  "new_LocationService =
     \<lparr>socket = None, isConnected = False, listeners = [], reconnectAttempts = 0,
      maxReconnectAttempts = 5, currentLocation = None, demoMode = False,
      demoInterval = None,
      transports = [], socketCalls = [], invoked = [], console = [], timeouts = 0,
      intervals = [], nextTimer = 1\<rparr>"

subsection \<open>Subscribers\<close>

text \<open>The closure \<^verbatim>\<open>subscribe\<close> returns for a callback: it rebinds \<^verbatim>\<open>this.listeners\<close>.\<close>

definition unsubscribe :: "nat \<Rightarrow> world \<Rightarrow> world" where
  "unsubscribe callback w =
     w\<lparr>listeners := filter (\<lambda>listener. listener \<noteq> callback) (listeners w)\<rparr>"

fun unsubscribe_all :: "nat list \<Rightarrow> world \<Rightarrow> world" where
  "unsubscribe_all [] w = w"
| "unsubscribe_all (c # cs) w = unsubscribe_all cs (unsubscribe c w)"

text \<open>
  The call of a callback with a sample: the call is made, the callback runs (it calls the
  unsubscribe functions its behaviour names), and it returns or throws (\<open>True\<close>).
\<close>

definition run_callback :: "behaviour \<Rightarrow> location \<Rightarrow> nat \<Rightarrow> world \<Rightarrow> bool \<times> world" where
  "run_callback bh loc l w =
     (throws bh (invoked w) l loc,
      unsubscribe_all (unsubscribes bh (invoked w) l loc)
        (w\<lparr>invoked := invoked w @ [(l, loc)]\<rparr>))"

text \<open>One round of the \<^verbatim>\<open>forEach\<close> of \<^verbatim>\<open>_notifyListeners\<close>: call, catch, log.\<close>

definition call_listener :: "behaviour \<Rightarrow> location \<Rightarrow> nat \<Rightarrow> world \<Rightarrow> world" where
  "call_listener bh loc l w =
     (case run_callback bh loc l w of
        (threw, w1) \<Rightarrow>
          if threw then w1\<lparr>console := console w1 @ [ListenerError l]\<rparr> else w1)"

text \<open>
  \<^verbatim>\<open>forEach\<close> walks the array that \<^verbatim>\<open>this.listeners\<close> was when the walk began: an
  unsubscribe function called meanwhile binds \<^verbatim>\<open>this.listeners\<close> to a new array.
\<close>

fun notify_each :: "behaviour \<Rightarrow> location \<Rightarrow> nat list \<Rightarrow> world \<Rightarrow> world" where
  "notify_each bh loc [] w = w"
| "notify_each bh loc (l # ls) w = notify_each bh loc ls (call_listener bh loc l w)"

definition notifyListeners :: "behaviour \<Rightarrow> location \<Rightarrow> world \<Rightarrow> world" where
  "notifyListeners bh loc w = notify_each bh loc (listeners w) w"

text \<open>
  \<^verbatim>\<open>subscribe\<close> returns the unsubscribe closure, here the handle it filters out, or
  the exception of the callback, which nothing catches.
\<close>

definition subscribe :: "behaviour \<Rightarrow> nat \<Rightarrow> world \<Rightarrow> (exn + nat) \<times> world" where
  "subscribe bh callback w =
     (let w1 = w\<lparr>listeners := listeners w @ [callback]\<rparr>
      in case currentLocation w1 of
           None \<Rightarrow> (Inr callback, w1)
         | Some loc \<Rightarrow>
             (case run_callback bh loc callback w1 of
                (threw, w2) \<Rightarrow>
                  if threw then (Inl (CallbackError callback), w2) else (Inr callback, w2)))"

definition getCurrentLocation :: "world \<Rightarrow> location option" where
  "getCurrentLocation w = currentLocation w"

definition getConnectionStatus :: "world \<Rightarrow> bool" where
  "getConnectionStatus w = isConnected w"

subsection \<open>Demo mode\<close>

definition demo_sample :: "sim \<Rightarrow> nat \<Rightarrow> location" where
  "demo_sample s now =
     \<lparr>latitude = JNum (sim_latitude s), longitude = JNum (sim_longitude s),
      timestamp = JNum (real now), accuracy = JUndefined, isBroadcasting = JUndefined,
      demo = JBool True\<rparr>"

definition demo_start :: sim where
  "demo_start = \<lparr>sim_latitude = 25.8010, sim_longitude = - 80.1994, direction = 1\<rparr>"

definition enableDemoMode :: "behaviour \<Rightarrow> nat \<Rightarrow> world \<Rightarrow> world" where
  "enableDemoMode bh now w =
     (if demoMode w then w
      else
        let w1 = w\<lparr>demoMode := True, isConnected := True\<rparr>;
            loc = demo_sample demo_start now;
            w2 = notifyListeners bh loc (w1\<lparr>currentLocation := Some loc\<rparr>);
            t = nextTimer w2
        in w2\<lparr>demoInterval := Some t, intervals := intervals w2 @ [(t, demo_start)],
              nextTimer := t + 1\<rparr>)"

text \<open>The body of the interval callback on its captured variables, for two draws.\<close>

definition demo_move :: "real \<Rightarrow> real \<Rightarrow> sim \<Rightarrow> sim" where
  "demo_move r1 r2 s =
     (let lat = sim_latitude s + (r1 - 0.5) * 0.002 * direction s;
          lon = sim_longitude s + (r2 - 0.5) * 0.002 * direction s;
          d1 = (if lat > 25.85 \<or> lat < 25.75 then direction s * (- 1) else direction s);
          d2 = (if lon > - 80.15 \<or> lon < - 80.25 then d1 * (- 1) else d1)
      in \<lparr>sim_latitude = lat, sim_longitude = lon, direction = d2\<rparr>)"

text \<open>The interval \<open>t\<close> fires; nothing happens when it is not running.\<close>

definition demo_tick :: "behaviour \<Rightarrow> nat \<Rightarrow> real \<Rightarrow> real \<Rightarrow> nat \<Rightarrow> world \<Rightarrow> world" where
  "demo_tick bh t r1 r2 now w =
     (case map_of (intervals w) t of
        None \<Rightarrow> w
      | Some s \<Rightarrow>
          (let s' = demo_move r1 r2 s;
               loc = demo_sample s' now;
               w1 = w\<lparr>intervals := map (\<lambda>(i, x). if i = t then (i, s') else (i, x)) (intervals w),
                       currentLocation := Some loc\<rparr>
           in notifyListeners bh loc w1))"

definition disableDemoMode :: "world \<Rightarrow> world" where
  "disableDemoMode w =
     (if \<not> demoMode w then w
      else
        let w1 = w\<lparr>demoMode := False, isConnected := False\<rparr>;
            w2 = (case demoInterval w1 of
                    None \<Rightarrow> w1
                  | Some t \<Rightarrow> w1\<lparr>intervals := filter (\<lambda>(i, x). i \<noteq> t) (intervals w1),
                                  demoInterval := None\<rparr>)
        in w2\<lparr>currentLocation := None\<rparr>)"

definition isDemoMode :: "world \<Rightarrow> bool" where
  "isDemoMode w = demoMode w"

subsection \<open>Connection\<close>

text \<open>
  \<^verbatim>\<open>connect\<close>: the guard, \<^verbatim>\<open>io(url, ...)\<close>, the handlers (registered on the new socket:
  see \<open>transport_event\<close> below) and the 3000 ms timer.
\<close>

definition connect :: "string \<Rightarrow> bool \<Rightarrow> world \<Rightarrow> world" where
  "connect url enableDemo w =
     (if socket w \<noteq> None \<and> isConnected w then w
      else
        let w1 = w\<lparr>socket := Some (length (transports w)),
                    transports := transports w @ [url]\<rparr>
        in if enableDemo then w1\<lparr>timeouts := timeouts w1 + 1\<rparr> else w1)"

text \<open>The callback of the 3000 ms timer; nothing happens when none is pending.\<close>

definition fallback_fires :: "behaviour \<Rightarrow> nat \<Rightarrow> world \<Rightarrow> world" where
  "fallback_fires bh now w =
     (if timeouts w = 0 then w
      else
        let w1 = w\<lparr>timeouts := timeouts w - 1\<rparr>
        in if \<not> isConnected w1 then enableDemoMode bh now w1 else w1)"

definition on_connect :: "world \<Rightarrow> world" where
  "on_connect w = w\<lparr>isConnected := True, reconnectAttempts := 0\<rparr>"

text \<open>
  The \<^verbatim>\<open>location\<close> handler; \<open>data = None\<close> is a payload that is not an object, whose
  field cannot be read; \<open>isoString\<close> is what \<^verbatim>\<open>new Date().toISOString()\<close> returns on arrival.
\<close>

definition on_location :: "behaviour \<Rightarrow> location option \<Rightarrow> string \<Rightarrow> world \<Rightarrow> (exn + unit) \<times> world" where
  "on_location bh data isoString w =
     (case data of
        None \<Rightarrow> (Inl TypeError, w)
      | Some d \<Rightarrow>
          (let loc = \<lparr>latitude = latitude d, longitude = longitude d,
                      timestamp = js_or (timestamp d) (JStr isoString),
                      accuracy = js_or (accuracy d) JNull,
                      isBroadcasting = JUndefined, demo = JUndefined\<rparr>
           in (Inr (), notifyListeners bh loc (w\<lparr>currentLocation := Some loc\<rparr>))))"

definition on_connect_error :: "world \<Rightarrow> world" where
  "on_connect_error w =
     w\<lparr>console := console w @ [ConnectionError], isConnected := False,
       reconnectAttempts := reconnectAttempts w + 1\<rparr>"

definition on_disconnect :: "string \<Rightarrow> world \<Rightarrow> (exn + unit) \<times> world" where
  "on_disconnect reason w =
     (let w1 = w\<lparr>isConnected := False\<rparr>
      in if reason = ''io server disconnect''
         then (case socket w1 of
                 None \<Rightarrow> (Inl TypeError, w1)
               | Some k \<Rightarrow> (Inr (), w1\<lparr>socketCalls := socketCalls w1 @ [(k, SocketConnect)]\<rparr>))
         else (Inr (), w1))"

definition on_reconnect_attempt :: "nat \<Rightarrow> world \<Rightarrow> world" where
  "on_reconnect_attempt attemptNumber w = w"

definition on_reconnect :: "nat \<Rightarrow> world \<Rightarrow> world" where
  "on_reconnect attemptNumber w = w\<lparr>isConnected := True, reconnectAttempts := 0\<rparr>"

definition on_reconnect_failed :: "world \<Rightarrow> world" where
  "on_reconnect_failed w = w\<lparr>console := console w @ [ReconnectFailed], isConnected := False\<rparr>"

definition disconnect :: "world \<Rightarrow> world" where
  "disconnect w =
     (case socket w of
        None \<Rightarrow> w
      | Some k \<Rightarrow>
          w\<lparr>socketCalls := socketCalls w @ [(k, SocketDisconnect)], socket := None,
            isConnected := False, listeners := [], currentLocation := None\<rparr>)"

definition reconnect :: "world \<Rightarrow> world" where
  "reconnect w =
     (case socket w of
        None \<Rightarrow> w
      | Some k \<Rightarrow> w\<lparr>socketCalls := socketCalls w @ [(k, SocketConnect)]\<rparr>)"

definition sendLocation :: "location \<Rightarrow> world \<Rightarrow> bool \<times> world" where
  "sendLocation loc w =
     (case socket w of
        None \<Rightarrow> (False, w\<lparr>console := console w @ [CannotSendLocation]\<rparr>)
      | Some k \<Rightarrow>
          if \<not> isConnected w
          then (False, w\<lparr>console := console w @ [CannotSendLocation]\<rparr>)
          else (True, w\<lparr>socketCalls := socketCalls w @ [(k, Emit (UpdateLocation loc))]\<rparr>))"

definition sendBroadcastStatus :: "bool \<Rightarrow> world \<Rightarrow> bool \<times> world" where
  "sendBroadcastStatus isActive w =
     (case socket w of
        None \<Rightarrow> (False, w\<lparr>console := console w @ [CannotSendBroadcastStatus]\<rparr>)
      | Some k \<Rightarrow>
          if \<not> isConnected w
          then (False, w\<lparr>console := console w @ [CannotSendBroadcastStatus]\<rparr>)
          else (True, w\<lparr>socketCalls := socketCalls w @ [(k, Emit (BroadcastStatus isActive))]\<rparr>))"

subsection \<open>Histories\<close>

text \<open>
  What can happen to the service, in the order it happens: a call of a public method, a
  timer firing, an event of a transport. The handlers stay registered on every socket
  \<^verbatim>\<open>io\<close> has returned, so an event of socket \<open>k\<close> is handled when \<open>k\<close> has been created.
  An exception leaves the state as the code left it on the way.
\<close>

datatype transport_event =
  TConnect | TLocation "location option" string | TConnectError | TDisconnect string
| TReconnectAttempt nat | TReconnect nat | TReconnectFailed

datatype event =
  Connect string bool | Disconnect | Reconnect
| Subscribe nat | Unsubscribe nat
| SendLocation location | SendBroadcastStatus bool
| EnableDemoMode nat | DisableDemoMode
| FallbackFires nat | Tick nat real real nat
| Transport nat transport_event

fun handle :: "behaviour \<Rightarrow> transport_event \<Rightarrow> world \<Rightarrow> world" where
  "handle bh TConnect w = on_connect w"
| "handle bh (TLocation data isoString) w = snd (on_location bh data isoString w)"
| "handle bh TConnectError w = on_connect_error w"
| "handle bh (TDisconnect reason) w = snd (on_disconnect reason w)"
| "handle bh (TReconnectAttempt n) w = on_reconnect_attempt n w"
| "handle bh (TReconnect n) w = on_reconnect n w"
| "handle bh TReconnectFailed w = on_reconnect_failed w"

fun step :: "behaviour \<Rightarrow> event \<Rightarrow> world \<Rightarrow> world" where
  "step bh (Connect url enableDemo) w = connect url enableDemo w"
| "step bh Disconnect w = disconnect w"
| "step bh Reconnect w = reconnect w"
| "step bh (Subscribe callback) w = snd (subscribe bh callback w)"
| "step bh (Unsubscribe callback) w = unsubscribe callback w"
| "step bh (SendLocation loc) w = snd (sendLocation loc w)"
| "step bh (SendBroadcastStatus isActive) w = snd (sendBroadcastStatus isActive w)"
| "step bh (EnableDemoMode now) w = enableDemoMode bh now w"
| "step bh DisableDemoMode w = disableDemoMode w"
| "step bh (FallbackFires now) w = fallback_fires bh now w"
| "step bh (Tick t r1 r2 now) w = demo_tick bh t r1 r2 now w"
| "step bh (Transport k ev) w = (if k < length (transports w) then handle bh ev w else w)"

fun run :: "behaviour \<Rightarrow> event list \<Rightarrow> world \<Rightarrow> world" where
  "run bh [] w = w"
| "run bh (e # es) w = run bh es (step bh e w)"

text \<open>The calls a callback has received.\<close>

definition calls_to :: "nat \<Rightarrow> world \<Rightarrow> location list" where
  "calls_to callback w = map snd (filter (\<lambda>c. fst c = callback) (invoked w))"

text \<open>
  The handles whose unsubscribe function is called during a fan-out of \<open>loc\<close> over the
  listeners \<open>ls\<close>, begun after the calls \<open>h\<close>.
\<close>

fun unsubscribed_during ::
  "behaviour \<Rightarrow> location \<Rightarrow> nat list \<Rightarrow> (nat \<times> location) list \<Rightarrow> nat list" where
  "unsubscribed_during bh loc [] h = []"
| "unsubscribed_during bh loc (l # ls) h =
     unsubscribes bh h l loc @ unsubscribed_during bh loc ls (h @ [(l, loc)])"

text \<open>
  Callbacks that only return; callbacks that only throw; and callbacks of which number 3
  calls the unsubscribe function of number 4, all returning.
\<close>

definition never :: behaviour where
  "never = \<lparr>throws = (\<lambda>h l loc. False), unsubscribes = (\<lambda>h l loc. [])\<rparr>"

definition always :: behaviour where
  "always = \<lparr>throws = (\<lambda>h l loc. True), unsubscribes = (\<lambda>h l loc. [])\<rparr>"

definition three_drops_four :: behaviour where
  "three_drops_four =
     \<lparr>throws = (\<lambda>h l loc. False), unsubscribes = (\<lambda>h l loc. if l = 3 then [4] else [])\<rparr>"

text \<open>The payload of the tests: a position in Miami, nothing else.\<close>

definition testLocation :: location where
  "testLocation =
     \<lparr>latitude = JNum 25.7617, longitude = JNum (- 80.1918), timestamp = JUndefined,
      accuracy = JUndefined, isBroadcasting = JUndefined, demo = JUndefined\<rparr>"

subsection \<open>Scenarios\<close>

text \<open>
  The states the statements below are evaluated at, each reached from the new service by
  a history. \<open>simulatedWorld\<close>: \<^verbatim>\<open>connect\<close>, then the 3000 ms timer fires with no
  transport connected. \<open>connectedWorld\<close>: \<^verbatim>\<open>connect\<close>, the transport connects and
  delivers the test payload. \<open>disconnectedWorld\<close>: \<^verbatim>\<open>disconnect\<close> in demo mode.
  \<open>staleDemoWorld\<close>: \<^verbatim>\<open>connect\<close>, \<^verbatim>\<open>disconnect\<close> within the 3000 ms, then the
  timer fires. \<open>fanoutWorld\<close>: connected, with the callbacks 3 and 4 subscribed in this
  order. \<open>northWorld\<close>: 51 ticks of the demo interval, each with the draws 0.99 for
  the latitude and 0.5 for the longitude.
\<close>

definition simulatedWorld :: world where
  "simulatedWorld =
     run never [Connect ''wss://api.coco-track.com'' True, FallbackFires 3000] new_LocationService"

definition connectedWorld :: world where
  "connectedWorld =
     run never [Connect ''wss://api.coco-track.com'' True, Transport 0 TConnect,
                Transport 0 (TLocation (Some testLocation) ''2025-10-11T12:00:00.000Z'')]
       new_LocationService"

definition disconnectedWorld :: world where
  "disconnectedWorld = run never [Disconnect] simulatedWorld"

definition staleDemoWorld :: world where
  "staleDemoWorld =
     run never [Connect ''wss://api.coco-track.com'' True, Disconnect, FallbackFires 3000]
       new_LocationService"

definition fanoutWorld :: world where
  "fanoutWorld =
     run never [Connect ''wss://api.coco-track.com'' True, Transport 0 TConnect,
                Subscribe 3, Subscribe 4] new_LocationService"

definition northWorld :: world where
  "northWorld = run never (replicate 51 (Tick 1 0.99 0.5 8000)) simulatedWorld"

text \<open>The bounds the interval callback tests the position against.\<close>

definition in_box :: "location \<Rightarrow> bool" where
  "in_box l =
     (case (latitude l, longitude l) of
        (JNum la, JNum lo) \<Rightarrow> 25.75 \<le> la \<and> la \<le> 25.85 \<and> - 80.25 \<le> lo \<and> lo \<le> - 80.15
      | _ \<Rightarrow> False)"

text \<open>
  The invariant of the histories without \<^verbatim>\<open>disableDemoMode\<close>: no interval was ever
  started while \<^verbatim>\<open>demoMode\<close> is false, exactly one once it is true.
\<close>

definition one_interval :: "world \<Rightarrow> bool" where
  "one_interval w =
     (if demoMode w then length (intervals w) = 1 \<and> nextTimer w = 2
      else intervals w = [] \<and> nextTimer w = 1)"

section \<open>Basic facts\<close>

lemma never_simps [simp]:
  "throws never h l loc = False"
  "unsubscribes never h l loc = []"
  by (simp_all add: never_def)

lemma always_simps [simp]:
  "throws always h l loc = True"
  "unsubscribes always h l loc = []"
  by (simp_all add: always_def)

lemma three_drops_four_simps [simp]:
  "throws three_drops_four h l loc = False"
  "unsubscribes three_drops_four h l loc = (if l = 3 then [4] else [])"
  by (simp_all add: three_drops_four_def)

lemma unsubscribe_all_eq:
  "unsubscribe_all cs w = w\<lparr>listeners := filter (\<lambda>l. l \<notin> set cs) (listeners w)\<rparr>"
proof (induction cs arbitrary: w)
  case Nil
  show ?case by simp
next
  case (Cons c cs)
  have "filter (\<lambda>l. l \<notin> set cs) (filter (\<lambda>l. l \<noteq> c) (listeners w))
          = filter (\<lambda>l. l \<notin> set (c # cs)) (listeners w)"
    by (induction "listeners w") auto
  then show ?case by (simp add: Cons.IH unsubscribe_def)
qed

lemma call_listener_fields [simp]:
  "invoked (call_listener bh loc l w) = invoked w @ [(l, loc)]"
  "listeners (call_listener bh loc l w) =
     filter (\<lambda>x. x \<notin> set (unsubscribes bh (invoked w) l loc)) (listeners w)"
  "socket (call_listener bh loc l w) = socket w"
  "isConnected (call_listener bh loc l w) = isConnected w"
  "currentLocation (call_listener bh loc l w) = currentLocation w"
  "demoMode (call_listener bh loc l w) = demoMode w"
  "demoInterval (call_listener bh loc l w) = demoInterval w"
  "transports (call_listener bh loc l w) = transports w"
  "socketCalls (call_listener bh loc l w) = socketCalls w"
  "timeouts (call_listener bh loc l w) = timeouts w"
  "intervals (call_listener bh loc l w) = intervals w"
  "nextTimer (call_listener bh loc l w) = nextTimer w"
  by (simp_all add: call_listener_def run_callback_def unsubscribe_all_eq)

lemma notify_each_fields [simp]:
  "invoked (notify_each bh loc ls w) = invoked w @ map (\<lambda>l. (l, loc)) ls"
  "socket (notify_each bh loc ls w) = socket w"
  "isConnected (notify_each bh loc ls w) = isConnected w"
  "currentLocation (notify_each bh loc ls w) = currentLocation w"
  "demoMode (notify_each bh loc ls w) = demoMode w"
  "demoInterval (notify_each bh loc ls w) = demoInterval w"
  "transports (notify_each bh loc ls w) = transports w"
  "socketCalls (notify_each bh loc ls w) = socketCalls w"
  "timeouts (notify_each bh loc ls w) = timeouts w"
  "intervals (notify_each bh loc ls w) = intervals w"
  "nextTimer (notify_each bh loc ls w) = nextTimer w"
  by (induction ls arbitrary: w; simp)+

lemma notify_each_listeners [simp]:
  "listeners (notify_each bh loc ls w) =
     filter (\<lambda>x. x \<notin> set (unsubscribed_during bh loc ls (invoked w))) (listeners w)"
proof (induction ls arbitrary: w)
  case Nil
  show ?case by simp
next
  case (Cons l ls)
  have "filter (\<lambda>x. x \<notin> set (unsubscribed_during bh loc ls (invoked w @ [(l, loc)])))
          (filter (\<lambda>x. x \<notin> set (unsubscribes bh (invoked w) l loc)) (listeners w))
        = filter (\<lambda>x. x \<notin> set (unsubscribed_during bh loc (l # ls) (invoked w))) (listeners w)"
    by (induction "listeners w") auto
  then show ?case by (simp add: Cons.IH)
qed

lemma no_unsubscribes_during:
  "(\<And>h l. unsubscribes bh h l loc = []) \<Longrightarrow> unsubscribed_during bh loc ls h = []"
  by (induction ls arbitrary: h) simp_all

lemma notifyListeners_fields [simp]:
  "invoked (notifyListeners bh loc w) = invoked w @ map (\<lambda>l. (l, loc)) (listeners w)"
  "listeners (notifyListeners bh loc w) =
     filter (\<lambda>x. x \<notin> set (unsubscribed_during bh loc (listeners w) (invoked w))) (listeners w)"
  "socket (notifyListeners bh loc w) = socket w"
  "isConnected (notifyListeners bh loc w) = isConnected w"
  "currentLocation (notifyListeners bh loc w) = currentLocation w"
  "demoMode (notifyListeners bh loc w) = demoMode w"
  "demoInterval (notifyListeners bh loc w) = demoInterval w"
  "transports (notifyListeners bh loc w) = transports w"
  "socketCalls (notifyListeners bh loc w) = socketCalls w"
  "timeouts (notifyListeners bh loc w) = timeouts w"
  "intervals (notifyListeners bh loc w) = intervals w"
  "nextTimer (notifyListeners bh loc w) = nextTimer w"
  by (simp_all add: notifyListeners_def)

lemma notify_each_append:
  "notify_each bh loc (xs @ ys) w = notify_each bh loc ys (notify_each bh loc xs w)"
  by (induction xs arbitrary: w) simp_all

lemma call_listener_console:
  "console (call_listener bh loc l w) =
     console w @ (if throws bh (invoked w) l loc then [ListenerError l] else [])"
  by (simp add: call_listener_def run_callback_def unsubscribe_all_eq)

lemma notify_each_console:
  "console (notify_each bh loc ls w) =
     console w @ map (\<lambda>i. ListenerError (ls ! i))
       (filter (\<lambda>i. throws bh (invoked w @ map (\<lambda>l. (l, loc)) (take i ls)) (ls ! i) loc) [0..<length ls])"
proof (induction ls rule: rev_induct)
  case Nil
  show ?case by simp
next
  case (snoc l ls)
  define P where "P = (\<lambda>i. throws bh (invoked w @ map (\<lambda>l. (l, loc)) (take i ls)) (ls ! i) loc)"
  define Q where
    "Q = (\<lambda>i. throws bh (invoked w @ map (\<lambda>x. (x, loc)) (take i (ls @ [l]))) ((ls @ [l]) ! i) loc)"
  have old: "filter Q [0..<length ls] = filter P [0..<length ls]"
    unfolding P_def Q_def by (rule filter_cong) (simp_all add: nth_append)
  have last: "Q (length ls) = throws bh (invoked w @ map (\<lambda>x. (x, loc)) ls) l loc"
    unfolding Q_def by simp
  have m: "map (\<lambda>i. ListenerError ((ls @ [l]) ! i)) (filter P [0..<length ls])
         = map (\<lambda>i. ListenerError (ls ! i)) (filter P [0..<length ls])"
    by (rule map_cong) (auto simp: nth_append)
  have "console (notify_each bh loc (ls @ [l]) w) =
          console (notify_each bh loc ls w) @
            (if throws bh (invoked w @ map (\<lambda>x. (x, loc)) ls) l loc then [ListenerError l] else [])"
    by (simp add: notify_each_append call_listener_console)
  also have "\<dots> = console w @ map (\<lambda>i. ListenerError (ls ! i)) (filter P [0..<length ls]) @
            (if Q (length ls) then [ListenerError l] else [])"
    using snoc.IH unfolding P_def last by simp
  also have "\<dots> = console w @ map (\<lambda>i. ListenerError ((ls @ [l]) ! i)) (filter Q [0..<length (ls @ [l])])"
    using old m by simp
  finally show ?case unfolding Q_def .
qed

section \<open>Subscription\<close>

text \<open>
  C4. In every state of the service, hence after every sequence of prior events,
  \<^verbatim>\<open>subscribe\<close> registers the callback and calls it exactly once, with the cached
  \<^verbatim>\<open>currentLocation\<close>, when there is one, and does not call it when the cache is null.
  Afterwards the listeners are those of before and the callback, without the handles
  whose unsubscribe function the callback called during that one call.
\<close>

theorem subscribe_replays_cache_once:
  "invoked (snd (subscribe bh callback w)) =
     invoked w @ (case currentLocation w of None \<Rightarrow> [] | Some loc \<Rightarrow> [(callback, loc)])
   \<and> listeners (snd (subscribe bh callback w)) =
       (case currentLocation w of
          None \<Rightarrow> listeners w @ [callback]
        | Some loc \<Rightarrow>
            filter (\<lambda>l. l \<notin> set (unsubscribes bh (invoked w) callback loc))
              (listeners w @ [callback]))
   \<and> ((\<forall>h l loc. unsubscribes bh h l loc = []) \<longrightarrow>
        listeners (snd (subscribe bh callback w)) = listeners w @ [callback])"
  by (simp add: subscribe_def Let_def run_callback_def unsubscribe_all_eq split: option.splits)

theorem subscribe_replays_cache_once_witness:
  "(\<forall>h l loc. unsubscribes never h l loc = [])
   \<and> invoked (snd (subscribe never 7 (new_LocationService\<lparr>currentLocation := Some testLocation\<rparr>)))
     = [(7, testLocation)]
   \<and> listeners (snd (subscribe never 7 (new_LocationService\<lparr>currentLocation := Some testLocation\<rparr>)))
     = [7]
   \<and> invoked (snd (subscribe never 7 new_LocationService)) = []"
  using subscribe_replays_cache_once [of never 7 "new_LocationService\<lparr>currentLocation := Some testLocation\<rparr>"]
    subscribe_replays_cache_once [of never 7 new_LocationService]
  by (simp add: new_LocationService_def)

text \<open>
  C5. \<^verbatim>\<open>_notifyListeners\<close> calls every listener registered when the fan-out begins, in
  registration order, with the one sample, whichever of them throw; each throw is caught
  and written to the console (the listener at position \<open>i\<close> throws on the calls made
  before it); afterwards the listeners are those of before without the handles whose
  unsubscribe function a listener called meanwhile, so a listener that only threw stays
  registered; and the \<^verbatim>\<open>location\<close> handler, which fans out, returns normally.
\<close>

theorem fanout_isolates_failures:
  "invoked (notifyListeners bh loc w) = invoked w @ map (\<lambda>l. (l, loc)) (listeners w)
   \<and> listeners (notifyListeners bh loc w) =
       filter (\<lambda>l. l \<notin> set (unsubscribed_during bh loc (listeners w) (invoked w))) (listeners w)
   \<and> ((\<forall>h l. unsubscribes bh h l loc = []) \<longrightarrow>
        listeners (notifyListeners bh loc w) = listeners w)
   \<and> console (notifyListeners bh loc w) =
       console w @ map (\<lambda>i. ListenerError (listeners w ! i))
         (filter (\<lambda>i. throws bh (invoked w @ map (\<lambda>l. (l, loc)) (take i (listeners w)))
                        (listeners w ! i) loc) [0..<length (listeners w)])
   \<and> fst (on_location bh (Some d) isoString w) = Inr ()"
proof -
  have "listeners (notifyListeners bh loc w) = listeners w"
    if "\<forall>h l. unsubscribes bh h l loc = []"
    using no_unsubscribes_during [of bh loc "listeners w" "invoked w"] that by simp
  then show ?thesis
    by (simp add: notify_each_console notifyListeners_def on_location_def Let_def)
qed

theorem fanout_isolates_failures_witness:
  "(\<forall>h l. unsubscribes always h l testLocation = [])
   \<and> invoked (notifyListeners always testLocation (new_LocationService\<lparr>listeners := [3, 4]\<rparr>))
     = [(3, testLocation), (4, testLocation)]
   \<and> listeners (notifyListeners always testLocation (new_LocationService\<lparr>listeners := [3, 4]\<rparr>))
     = [3, 4]
   \<and> console (notifyListeners always testLocation (new_LocationService\<lparr>listeners := [3, 4]\<rparr>))
     = [ListenerError 3, ListenerError 4]"
proof -
  have h: "\<forall>h l. unsubscribes always h l testLocation = []" by simp
  note t = fanout_isolates_failures
    [of always testLocation "new_LocationService\<lparr>listeners := [3, 4]\<rparr>"]
  from t h have "listeners (notifyListeners always testLocation (new_LocationService\<lparr>listeners := [3, 4]\<rparr>))
     = listeners (new_LocationService\<lparr>listeners := [3, 4]\<rparr>)"
    by blast
  moreover from t have "invoked (notifyListeners always testLocation (new_LocationService\<lparr>listeners := [3, 4]\<rparr>))
     = invoked (new_LocationService\<lparr>listeners := [3, 4]\<rparr>)
         @ map (\<lambda>l. (l, testLocation)) (listeners (new_LocationService\<lparr>listeners := [3, 4]\<rparr>))"
    by blast
  moreover from t have "console (notifyListeners always testLocation (new_LocationService\<lparr>listeners := [3, 4]\<rparr>))
     = console (new_LocationService\<lparr>listeners := [3, 4]\<rparr>) @
        map (\<lambda>i. ListenerError (listeners (new_LocationService\<lparr>listeners := [3, 4]\<rparr>) ! i))
         (filter (\<lambda>i. throws always (invoked (new_LocationService\<lparr>listeners := [3, 4]\<rparr>)
                         @ map (\<lambda>l. (l, testLocation)) (take i (listeners (new_LocationService\<lparr>listeners := [3, 4]\<rparr>))))
                        (listeners (new_LocationService\<lparr>listeners := [3, 4]\<rparr>) ! i) testLocation)
                 [0..<length (listeners (new_LocationService\<lparr>listeners := [3, 4]\<rparr>))])"
    by blast
  ultimately show ?thesis
    using h by (simp add: new_LocationService_def upt_rec)
qed

section \<open>Auxiliary facts\<close>

lemma simulatedWorld_eq:
  "simulatedWorld = \<lparr>socket = Some 0, isConnected = True, listeners = [], reconnectAttempts = 0,
      maxReconnectAttempts = 5,
      currentLocation = Some (demo_sample demo_start 3000), demoMode = True,
      demoInterval = Some 1,
      transports = [''wss://api.coco-track.com''], socketCalls = [], invoked = [], console = [], timeouts = 0,
      intervals = [(1, demo_start)], nextTimer = 2\<rparr>"
  by (simp add: simulatedWorld_def new_LocationService_def connect_def fallback_fires_def enableDemoMode_def Let_def notifyListeners_def)

lemma connectedWorld_eq:
  "connectedWorld = \<lparr>socket = Some 0, isConnected = True, listeners = [], reconnectAttempts = 0,
      maxReconnectAttempts = 5,
      currentLocation = Some (testLocation\<lparr>timestamp := JStr ''2025-10-11T12:00:00.000Z'', accuracy := JNull\<rparr>), demoMode = False,
      demoInterval = None,
      transports = [''wss://api.coco-track.com''], socketCalls = [], invoked = [], console = [], timeouts = 1,
      intervals = [], nextTimer = 1\<rparr>"
  by (simp add: connectedWorld_def new_LocationService_def connect_def on_connect_def on_location_def Let_def notifyListeners_def testLocation_def js_or_def)

lemma fanoutWorld_eq:
  "fanoutWorld = \<lparr>socket = Some 0, isConnected = True, listeners = [3, 4], reconnectAttempts = 0,
      maxReconnectAttempts = 5, currentLocation = None, demoMode = False,
      demoInterval = None,
      transports = [''wss://api.coco-track.com''], socketCalls = [], invoked = [], console = [], timeouts = 1,
      intervals = [], nextTimer = 1\<rparr>"
  by (simp add: fanoutWorld_def new_LocationService_def connect_def on_connect_def subscribe_def Let_def)

lemma disconnectedWorld_eq:
  "disconnectedWorld = \<lparr>socket = None, isConnected = False, listeners = [], reconnectAttempts = 0,
      maxReconnectAttempts = 5,
      currentLocation = None, demoMode = True,
      demoInterval = Some 1,
      transports = [''wss://api.coco-track.com''], socketCalls = [(0, SocketDisconnect)], invoked = [], console = [], timeouts = 0,
      intervals = [(1, demo_start)], nextTimer = 2\<rparr>"
  by (simp add: disconnectedWorld_def simulatedWorld_eq disconnect_def)

lemma staleDemoWorld_eq:
  "staleDemoWorld = \<lparr>socket = None, isConnected = True, listeners = [], reconnectAttempts = 0,
      maxReconnectAttempts = 5,
      currentLocation = Some (demo_sample demo_start 3000), demoMode = True,
      demoInterval = Some 1,
      transports = [''wss://api.coco-track.com''], socketCalls = [(0, SocketDisconnect)], invoked = [], console = [], timeouts = 0,
      intervals = [(1, demo_start)], nextTimer = 2\<rparr>"
  by (simp add: staleDemoWorld_def new_LocationService_def connect_def disconnect_def fallback_fires_def enableDemoMode_def Let_def notifyListeners_def)

lemma filter_other_handle:
  "cb \<notin> set ls \<Longrightarrow> filter (\<lambda>c. fst c = cb) (map (\<lambda>l. (l, loc)) ls) = []"
  by (auto simp: filter_empty_conv)

lemma enableDemoMode_quiet:
  "cb \<notin> set (listeners w) \<Longrightarrow>
     cb \<notin> set (listeners (enableDemoMode bh now w)) \<and>
     calls_to cb (enableDemoMode bh now w) = calls_to cb w"
  by (simp add: enableDemoMode_def Let_def calls_to_def filter_other_handle)

lemma fallback_fires_quiet:
  "cb \<notin> set (listeners w) \<Longrightarrow>
     cb \<notin> set (listeners (fallback_fires bh now w)) \<and>
     calls_to cb (fallback_fires bh now w) = calls_to cb w"
  using enableDemoMode_quiet [of cb "w\<lparr>timeouts := timeouts w - 1\<rparr>" bh now]
  by (simp add: fallback_fires_def Let_def calls_to_def)

lemma demo_tick_quiet:
  "cb \<notin> set (listeners w) \<Longrightarrow>
     cb \<notin> set (listeners (demo_tick bh t r1 r2 now w)) \<and>
     calls_to cb (demo_tick bh t r1 r2 now w) = calls_to cb w"
  by (simp add: demo_tick_def Let_def calls_to_def filter_other_handle split: option.splits)

lemma handle_quiet:
  "cb \<notin> set (listeners w) \<Longrightarrow>
     cb \<notin> set (listeners (handle bh ev w)) \<and>
     calls_to cb (handle bh ev w) = calls_to cb w"
  by (cases ev)
     (simp_all add: on_connect_def on_location_def on_connect_error_def on_disconnect_def
        on_reconnect_attempt_def on_reconnect_def on_reconnect_failed_def Let_def calls_to_def
        filter_other_handle split: option.splits)

lemma step_quiet:
  assumes "cb \<notin> set (listeners w)" and "e \<noteq> Subscribe cb"
  shows "cb \<notin> set (listeners (step bh e w)) \<and> calls_to cb (step bh e w) = calls_to cb w"
proof (cases e)
  case (Connect url enableDemo)
  then show ?thesis using assms by (simp add: connect_def Let_def calls_to_def)
next
  case Disconnect
  then show ?thesis using assms by (simp add: disconnect_def calls_to_def split: option.splits)
next
  case Reconnect
  then show ?thesis using assms by (simp add: reconnect_def calls_to_def split: option.splits)
next
  case (Subscribe c)
  then show ?thesis using assms
    by (simp add: subscribe_def Let_def calls_to_def run_callback_def unsubscribe_all_eq
          split: option.splits)
next
  case (Unsubscribe c)
  then show ?thesis using assms by (simp add: unsubscribe_def calls_to_def)
next
  case (SendLocation loc)
  then show ?thesis using assms by (simp add: sendLocation_def calls_to_def split: option.splits)
next
  case (SendBroadcastStatus b)
  then show ?thesis using assms
    by (simp add: sendBroadcastStatus_def calls_to_def split: option.splits)
next
  case (EnableDemoMode now)
  then show ?thesis using assms enableDemoMode_quiet [of cb w bh now] by simp
next
  case DisableDemoMode
  then show ?thesis using assms
    by (simp add: disableDemoMode_def Let_def calls_to_def split: option.splits)
next
  case (FallbackFires now)
  then show ?thesis using assms fallback_fires_quiet [of cb w bh now] by simp
next
  case (Tick t r1 r2 now)
  then show ?thesis using assms demo_tick_quiet [of cb w bh t r1 r2 now] by simp
next
  case (Transport k ev)
  then show ?thesis using assms handle_quiet [of cb w bh ev] by simp
qed

lemma run_quiet:
  "cb \<notin> set (listeners w) \<Longrightarrow> Subscribe cb \<notin> set es \<Longrightarrow>
     cb \<notin> set (listeners (run bh es w)) \<and> calls_to cb (run bh es w) = calls_to cb w"
proof (induction es arbitrary: w)
  case Nil
  then show ?case by simp
next
  case (Cons e es)
  from Cons.prems have e: "e \<noteq> Subscribe cb" and es: "Subscribe cb \<notin> set es" by auto
  from step_quiet [OF Cons.prems(1) e, of bh]
  have 1: "cb \<notin> set (listeners (step bh e w))"
    and 2: "calls_to cb (step bh e w) = calls_to cb w" by simp_all
  from Cons.IH [OF 1 es] 2 show ?case by simp
qed

lemma count_filter_other:
  "other \<noteq> cb \<Longrightarrow> count_list (filter (\<lambda>l. l \<noteq> cb) ls) other = count_list ls other"
  by (induction ls) auto

lemma demo_move_north_step:
  "demo_move 0.99 0.5 \<lparr>sim_latitude = x, sim_longitude = - 80.1994, direction = 1\<rparr> =
     \<lparr>sim_latitude = x + 0.00098, sim_longitude = - 80.1994,
      direction = (if x + 0.00098 > 25.85 \<or> x + 0.00098 < 25.75 then - 1 else 1)\<rparr>"
  by (simp add: demo_move_def Let_def)

lemma north_bounds:
  "x \<le> 50 \<Longrightarrow> 0 \<le> x \<Longrightarrow>
     \<not> 25.801 + x * 0.00098 > (25.85::real) \<and> \<not> 25.801 + x * 0.00098 < (25.75::real)"
  by simp

lemma demo_move_north:
  "n \<le> 50 \<Longrightarrow>
     (demo_move 0.99 0.5 ^^ n) demo_start =
       \<lparr>sim_latitude = 25.801 + real n * 0.00098, sim_longitude = - 80.1994, direction = 1\<rparr>"
proof (induction n)
  case 0
  show ?case by (simp add: demo_start_def)
next
  case (Suc n)
  then have n: "real n \<le> 49" by simp
  from Suc have IH: "(demo_move 0.99 0.5 ^^ n) demo_start =
       \<lparr>sim_latitude = 25.801 + real n * 0.00098, sim_longitude = - 80.1994, direction = 1\<rparr>"
    by simp
  have "(demo_move 0.99 0.5 ^^ Suc n) demo_start =
          demo_move 0.99 0.5 ((demo_move 0.99 0.5 ^^ n) demo_start)"
    by simp
  also have "\<dots> = \<lparr>sim_latitude = 25.801 + real n * 0.00098 + 0.00098, sim_longitude = - 80.1994,
      direction = (if 25.801 + real n * 0.00098 + 0.00098 > 25.85
                     \<or> 25.801 + real n * 0.00098 + 0.00098 < 25.75 then - 1 else 1)\<rparr>"
    unfolding IH by (rule demo_move_north_step)
  also have "\<dots> = \<lparr>sim_latitude = 25.801 + real (Suc n) * 0.00098, sim_longitude = - 80.1994,
      direction = 1\<rparr>"
  proof -
    have e: "25.801 + real n * 0.00098 + 0.00098 = 25.801 + real (Suc n) * 0.00098"
      by (simp add: field_simps)
    have r: "real (Suc n) \<le> 50" and p: "0 \<le> real (Suc n)"
      using n by simp_all
    have u: "\<not> 25.801 + real (Suc n) * 0.00098 > 25.85"
      and l: "\<not> 25.801 + real (Suc n) * 0.00098 < 25.75"
      using north_bounds [OF r p] by blast+
    show ?thesis unfolding e using u l by simp
  qed
  finally show ?case .
qed

lemma demo_move_51:
  "(demo_move 0.99 0.5 ^^ 51) demo_start =
       \<lparr>sim_latitude = 25.85098, sim_longitude = - 80.1994, direction = - 1\<rparr>"
proof -
  have "(51::nat) = Suc 50" by simp
  then have "(demo_move 0.99 0.5 ^^ 51) demo_start =
      demo_move 0.99 0.5 ((demo_move 0.99 0.5 ^^ 50) demo_start)"
    by (simp only: funpow.simps o_apply)
  also have "\<dots> = demo_move 0.99 0.5
      \<lparr>sim_latitude = 25.85, sim_longitude = - 80.1994, direction = 1\<rparr>"
    using demo_move_north [of 50] by simp
  also have "\<dots> = \<lparr>sim_latitude = 25.85098, sim_longitude = - 80.1994, direction = - 1\<rparr>"
    unfolding demo_move_north_step by simp
  finally show ?thesis .
qed

lemma run_ticks:
  "intervals w = [(t, s)] \<Longrightarrow>
     intervals (run bh (replicate n (Tick t r1 r2 now)) w) = [(t, (demo_move r1 r2 ^^ n) s)]
     \<and> (0 < n \<longrightarrow> currentLocation (run bh (replicate n (Tick t r1 r2 now)) w)
                      = Some (demo_sample ((demo_move r1 r2 ^^ n) s) now))"
proof (induction n arbitrary: w s)
  case 0
  then show ?case by simp
next
  case (Suc n)
  let ?w = "demo_tick bh t r1 r2 now w"
  from Suc.prems have i: "intervals ?w = [(t, demo_move r1 r2 s)]"
    and c: "currentLocation ?w = Some (demo_sample (demo_move r1 r2 s) now)"
    by (simp_all add: demo_tick_def Let_def)
  from Suc.IH [OF i] c show ?case
    by (cases n) (simp_all add: funpow_swap1)
qed

lemma enableDemoMode_one:
  "one_interval w \<Longrightarrow> one_interval (enableDemoMode bh now w)"
  by (simp add: one_interval_def enableDemoMode_def Let_def)

lemma fallback_fires_one:
  "one_interval w \<Longrightarrow> one_interval (fallback_fires bh now w)"
  using enableDemoMode_one [of "w\<lparr>timeouts := timeouts w - 1\<rparr>" bh now]
  by (simp add: fallback_fires_def Let_def one_interval_def)

lemma demo_tick_one:
  "one_interval w \<Longrightarrow> one_interval (demo_tick bh t r1 r2 now w)"
  by (simp add: one_interval_def demo_tick_def Let_def split: option.splits)

lemma handle_one:
  "one_interval w \<Longrightarrow> one_interval (handle bh ev w)"
  by (cases ev)
     (simp_all add: one_interval_def on_connect_def on_location_def on_connect_error_def
        on_disconnect_def on_reconnect_attempt_def on_reconnect_def on_reconnect_failed_def
        Let_def split: option.splits)

lemma step_one:
  assumes "one_interval w" and "e \<noteq> DisableDemoMode"
  shows "one_interval (step bh e w)"
proof (cases e)
  case (Connect url enableDemo)
  then show ?thesis using assms by (simp add: connect_def Let_def one_interval_def)
next
  case Disconnect
  then show ?thesis using assms by (simp add: disconnect_def one_interval_def split: option.splits)
next
  case Reconnect
  then show ?thesis using assms by (simp add: reconnect_def one_interval_def split: option.splits)
next
  case (Subscribe c)
  then show ?thesis using assms
    by (simp add: subscribe_def Let_def one_interval_def run_callback_def unsubscribe_all_eq
          split: option.splits)
next
  case (Unsubscribe c)
  then show ?thesis using assms by (simp add: unsubscribe_def one_interval_def)
next
  case (SendLocation loc)
  then show ?thesis using assms by (simp add: sendLocation_def one_interval_def split: option.splits)
next
  case (SendBroadcastStatus b)
  then show ?thesis using assms
    by (simp add: sendBroadcastStatus_def one_interval_def split: option.splits)
next
  case (EnableDemoMode now)
  then show ?thesis using assms enableDemoMode_one by simp
next
  case DisableDemoMode
  then show ?thesis using assms by simp
next
  case (FallbackFires now)
  then show ?thesis using assms fallback_fires_one by simp
next
  case (Tick t r1 r2 now)
  then show ?thesis using assms demo_tick_one by simp
next
  case (Transport k ev)
  then show ?thesis using assms handle_one by simp
qed

lemma run_one:
  "one_interval w \<Longrightarrow> DisableDemoMode \<notin> set es \<Longrightarrow> one_interval (run bh es w)"
proof (induction es arbitrary: w)
  case Nil
  then show ?case by simp
next
  case (Cons e es)
  from Cons.prems have e: "e \<noteq> DisableDemoMode" and es: "DisableDemoMode \<notin> set es" by auto
  from Cons.IH [OF step_one [OF Cons.prems(1) e] es] show ?case by simp
qed

section \<open>Unsubscribing\<close>

text \<open>
  C6, as the specification states it, fails when a listener calls the unsubscribe function
  during a fan-out. The callbacks 3 and 4 are subscribed, and 3 calls the unsubscribe
  function of 4: when 3 has run, 4 is off the list and has received nothing, and the
  fan-out in progress then calls 4, directly and through the \<^verbatim>\<open>location\<close> handler.
\<close>

theorem unsubscribe_during_fanout_counterexample:
  "listeners fanoutWorld = [3, 4]
   \<and> listeners (call_listener three_drops_four testLocation 3 fanoutWorld) = [3]
   \<and> calls_to 4 (call_listener three_drops_four testLocation 3 fanoutWorld) = []
   \<and> \<not> (calls_to 4 (notifyListeners three_drops_four testLocation fanoutWorld)
          = calls_to 4 (call_listener three_drops_four testLocation 3 fanoutWorld))
   \<and> \<not> (calls_to 4 (run three_drops_four
             [Transport 0 (TLocation (Some testLocation) ''2025-10-11T12:00:00.000Z'')]
             fanoutWorld) = [])"
  by (simp add: fanoutWorld_eq calls_to_def on_location_def Let_def)

text \<open>
  C6, amended. After the unsubscribe function of a callback has run outside a fan-out,
  the callback is not in the list of listeners, however often it had been registered;
  running the function again changes nothing; along every later history in which the
  callback is not subscribed again it receives no call; every other callback is
  registered as often as before, and a fan-out calls exactly the others, in their order.
  A fan-out calls every listener registered when it began, whatever is unsubscribed
  meanwhile; a callback whose unsubscribe function a listener called during the fan-out
  is off the list when the fan-out ends, and from then on it receives no call along every
  history in which it is not subscribed again.
\<close>

theorem unsubscribe_stops_notifications:
  "callback \<notin> set (listeners (unsubscribe callback w))
   \<and> unsubscribe callback (unsubscribe callback w) = unsubscribe callback w
   \<and> (\<forall>es. Subscribe callback \<notin> set es \<longrightarrow>
         calls_to callback (run bh es (unsubscribe callback w)) = calls_to callback w)
   \<and> (\<forall>other. other \<noteq> callback \<longrightarrow>
         count_list (listeners (unsubscribe callback w)) other = count_list (listeners w) other)
   \<and> invoked (notifyListeners bh loc (unsubscribe callback w)) =
       invoked w @ map (\<lambda>l. (l, loc)) (filter (\<lambda>l. l \<noteq> callback) (listeners w))
   \<and> invoked (notifyListeners bh loc w) = invoked w @ map (\<lambda>l. (l, loc)) (listeners w)
   \<and> (callback \<in> set (unsubscribed_during bh loc (listeners w) (invoked w)) \<longrightarrow>
        callback \<notin> set (listeners (notifyListeners bh loc w))
        \<and> (\<forall>es. Subscribe callback \<notin> set es \<longrightarrow>
              calls_to callback (run bh es (notifyListeners bh loc w))
                = calls_to callback (notifyListeners bh loc w)))"
proof -
  have a: "callback \<notin> set (listeners (unsubscribe callback w))"
    by (simp add: unsubscribe_def)
  have b: "unsubscribe callback (unsubscribe callback w) = unsubscribe callback w"
    by (simp add: unsubscribe_def)
  have c: "calls_to callback (run bh es (unsubscribe callback w)) = calls_to callback w"
    if "Subscribe callback \<notin> set es" for es
    using run_quiet [OF a that, of bh] by (simp add: calls_to_def unsubscribe_def)
  have d: "count_list (listeners (unsubscribe callback w)) other = count_list (listeners w) other"
    if "other \<noteq> callback" for other
    using that by (simp add: unsubscribe_def count_filter_other)
  have e: "invoked (notifyListeners bh loc (unsubscribe callback w)) =
       invoked w @ map (\<lambda>l. (l, loc)) (filter (\<lambda>l. l \<noteq> callback) (listeners w))"
    by (simp add: unsubscribe_def)
  have f: "invoked (notifyListeners bh loc w) = invoked w @ map (\<lambda>l. (l, loc)) (listeners w)"
    by simp
  have g: "callback \<notin> set (listeners (notifyListeners bh loc w))
        \<and> (\<forall>es. Subscribe callback \<notin> set es \<longrightarrow>
              calls_to callback (run bh es (notifyListeners bh loc w))
                = calls_to callback (notifyListeners bh loc w))"
    if u: "callback \<in> set (unsubscribed_during bh loc (listeners w) (invoked w))"
  proof -
    from u have off: "callback \<notin> set (listeners (notifyListeners bh loc w))" by simp
    from run_quiet [OF off, of _ bh] show ?thesis using off by blast
  qed
  from a b c d e f g show ?thesis by blast
qed

theorem unsubscribe_stops_notifications_witness:
  "Subscribe 3 \<notin> set [EnableDemoMode 0, Tick 1 0.5 0.5 5000] \<and> (4::nat) \<noteq> 3
   \<and> calls_to 3 (run never [EnableDemoMode 0, Tick 1 0.5 0.5 5000]
                   (unsubscribe 3 (new_LocationService\<lparr>listeners := [3, 4, 3]\<rparr>))) = []
   \<and> count_list (listeners (unsubscribe 3 (new_LocationService\<lparr>listeners := [3, 4, 3]\<rparr>))) 4 = 1
   \<and> 4 \<in> set (unsubscribed_during three_drops_four testLocation
                 (listeners fanoutWorld) (invoked fanoutWorld))
   \<and> Subscribe 4 \<notin> set [Transport 0 (TLocation (Some testLocation) ''2025-10-11T12:00:00.000Z'')]
   \<and> 4 \<notin> set (listeners (notifyListeners three_drops_four testLocation fanoutWorld))
   \<and> calls_to 4 (run three_drops_four
         [Transport 0 (TLocation (Some testLocation) ''2025-10-11T12:00:00.000Z'')]
         (notifyListeners three_drops_four testLocation fanoutWorld)) = [testLocation]"
proof -
  have h: "Subscribe 3 \<notin> set [EnableDemoMode 0, Tick 1 0.5 0.5 5000]" by simp
  have o: "(4::nat) \<noteq> 3" by simp
  note t = unsubscribe_stops_notifications
    [of 3 "new_LocationService\<lparr>listeners := [3, 4, 3]\<rparr>" never testLocation]
  from t h have "calls_to 3 (run never [EnableDemoMode 0, Tick 1 0.5 0.5 5000]
                   (unsubscribe 3 (new_LocationService\<lparr>listeners := [3, 4, 3]\<rparr>)))
                 = calls_to 3 (new_LocationService\<lparr>listeners := [3, 4, 3]\<rparr>)"
    by blast
  then have c3: "calls_to 3 (run never [EnableDemoMode 0, Tick 1 0.5 0.5 5000]
                   (unsubscribe 3 (new_LocationService\<lparr>listeners := [3, 4, 3]\<rparr>))) = []"
    by (simp add: calls_to_def new_LocationService_def)
  from t o
  have "count_list (listeners (unsubscribe 3 (new_LocationService\<lparr>listeners := [3, 4, 3]\<rparr>))) 4
          = count_list (listeners (new_LocationService\<lparr>listeners := [3, 4, 3]\<rparr>)) 4"
    by blast
  then have c4: "count_list (listeners (unsubscribe 3 (new_LocationService\<lparr>listeners := [3, 4, 3]\<rparr>))) 4 = 1"
    by (simp add: new_LocationService_def)
  have u: "4 \<in> set (unsubscribed_during three_drops_four testLocation
                 (listeners fanoutWorld) (invoked fanoutWorld))"
    by (simp add: fanoutWorld_eq)
  have k: "Subscribe 4 \<notin> set [Transport 0 (TLocation (Some testLocation) ''2025-10-11T12:00:00.000Z'')]"
    by simp
  note t' = unsubscribe_stops_notifications [of 4 fanoutWorld three_drops_four testLocation]
  from t' u have off: "4 \<notin> set (listeners (notifyListeners three_drops_four testLocation fanoutWorld))"
    by blast
  from t' u k have "calls_to 4 (run three_drops_four
         [Transport 0 (TLocation (Some testLocation) ''2025-10-11T12:00:00.000Z'')]
         (notifyListeners three_drops_four testLocation fanoutWorld))
       = calls_to 4 (notifyListeners three_drops_four testLocation fanoutWorld)"
    by blast
  then have c5: "calls_to 4 (run three_drops_four
         [Transport 0 (TLocation (Some testLocation) ''2025-10-11T12:00:00.000Z'')]
         (notifyListeners three_drops_four testLocation fanoutWorld)) = [testLocation]"
    by (simp add: calls_to_def fanoutWorld_eq)
  from h o c3 c4 u k off c5 show ?thesis by blast
qed

section \<open>Sending\<close>

text \<open>
  C1, as the specification states it, fails in demo mode: after \<^verbatim>\<open>connect\<close> and the fallback
  timer, \<^verbatim>\<open>sendLocation\<close> does not return false without a network action.
\<close>

theorem sendLocation_demo_mode_counterexample:
  "isDemoMode simulatedWorld \<and> getConnectionStatus simulatedWorld
   \<and> \<not> (fst (sendLocation testLocation simulatedWorld) = False
         \<and> socketCalls (snd (sendLocation testLocation simulatedWorld)) = socketCalls simulatedWorld)"
  by (simp add: simulatedWorld_eq isDemoMode_def getConnectionStatus_def sendLocation_def)

text \<open>
  C1, amended. \<^verbatim>\<open>sendLocation\<close> returns true exactly when a socket is held and the
  \<^verbatim>\<open>isConnected\<close> flag is set, and then emits exactly one \<^verbatim>\<open>updateLocation\<close> on that
  socket; otherwise it returns false and neither calls a socket nor creates a transport.
  The flag is set by a transport's \<^verbatim>\<open>connect\<close> and also by the fallback of \<^verbatim>\<open>connect\<close>
  entering demo mode, after which \<^verbatim>\<open>sendLocation\<close> returns true.
\<close>

theorem sendLocation_true_iff_socket_and_flag:
  "(fst (sendLocation loc w) \<longleftrightarrow> socket w \<noteq> None \<and> isConnected w)
   \<and> (socket w \<noteq> None \<and> isConnected w \<longrightarrow>
        socketCalls (snd (sendLocation loc w)) =
          socketCalls w @ [(the (socket w), Emit (UpdateLocation loc))]
        \<and> transports (snd (sendLocation loc w)) = transports w)
   \<and> (\<not> (socket w \<noteq> None \<and> isConnected w) \<longrightarrow>
        socketCalls (snd (sendLocation loc w)) = socketCalls w
        \<and> transports (snd (sendLocation loc w)) = transports w)
   \<and> (socket w \<noteq> None \<and> 0 < timeouts w \<and> \<not> isConnected w \<and> \<not> demoMode w \<longrightarrow>
        demoMode (fallback_fires bh now w) \<and> fst (sendLocation loc (fallback_fires bh now w)))"
  by (auto simp: sendLocation_def fallback_fires_def enableDemoMode_def Let_def split: option.splits)

theorem sendLocation_true_iff_socket_and_flag_witness:
  "socket connectedWorld \<noteq> None \<and> isConnected connectedWorld
   \<and> fst (sendLocation testLocation connectedWorld)
   \<and> socketCalls (snd (sendLocation testLocation connectedWorld))
       = [(0, Emit (UpdateLocation testLocation))]
   \<and> \<not> (socket new_LocationService \<noteq> None \<and> isConnected new_LocationService)
   \<and> \<not> fst (sendLocation testLocation new_LocationService)
   \<and> socketCalls (snd (sendLocation testLocation new_LocationService)) = []
   \<and> socket (connect ''wss://x'' True new_LocationService) \<noteq> None
   \<and> 0 < timeouts (connect ''wss://x'' True new_LocationService)
   \<and> \<not> isConnected (connect ''wss://x'' True new_LocationService)
   \<and> \<not> demoMode (connect ''wss://x'' True new_LocationService)
   \<and> fst (sendLocation testLocation
            (fallback_fires never 3000 (connect ''wss://x'' True new_LocationService)))"
proof -
  have h: "socket (connect ''wss://x'' True new_LocationService) \<noteq> None
     \<and> 0 < timeouts (connect ''wss://x'' True new_LocationService)
     \<and> \<not> isConnected (connect ''wss://x'' True new_LocationService)
     \<and> \<not> demoMode (connect ''wss://x'' True new_LocationService)"
    by (simp add: connect_def new_LocationService_def Let_def)
  with sendLocation_true_iff_socket_and_flag
    [of testLocation "connect ''wss://x'' True new_LocationService" never 3000]
  have d: "fst (sendLocation testLocation
            (fallback_fires never 3000 (connect ''wss://x'' True new_LocationService)))"
    by blast
  have c: "socket connectedWorld \<noteq> None \<and> isConnected connectedWorld"
    by (simp add: connectedWorld_eq)
  with sendLocation_true_iff_socket_and_flag [of testLocation connectedWorld never 0]
  have c': "fst (sendLocation testLocation connectedWorld)
    \<and> socketCalls (snd (sendLocation testLocation connectedWorld))
       = socketCalls connectedWorld @ [(the (socket connectedWorld), Emit (UpdateLocation testLocation))]"
    by blast
  have n: "\<not> (socket new_LocationService \<noteq> None \<and> isConnected new_LocationService)"
    by (simp add: new_LocationService_def)
  with sendLocation_true_iff_socket_and_flag [of testLocation new_LocationService never 0]
  have n': "\<not> fst (sendLocation testLocation new_LocationService)
    \<and> socketCalls (snd (sendLocation testLocation new_LocationService))
        = socketCalls new_LocationService"
    by blast
  from c' have c'': "socketCalls (snd (sendLocation testLocation connectedWorld))
       = [(0, Emit (UpdateLocation testLocation))]"
    by (simp add: connectedWorld_eq)
  from n' have n'': "socketCalls (snd (sendLocation testLocation new_LocationService)) = []"
    by (simp add: new_LocationService_def)
  from h d c c' c'' n n' n'' show ?thesis by blast
qed

text \<open>
  C7: the code propagates the exception. A location is cached and the callback throws:
  \<^verbatim>\<open>subscribe\<close> ends with the exception of the callback.
\<close>

theorem subscribe_propagates_callback_exception:
  "fst (subscribe always 7 connectedWorld) = Inl (CallbackError 7)"
  by (simp add: connectedWorld_eq subscribe_def Let_def run_callback_def)

section \<open>Connecting\<close>

text \<open>
  C3, as the specification states it, fails: two calls of \<^verbatim>\<open>connect\<close> in a row, with no
  transport event between them, create two transports, and the second call changes the
  state.
\<close>

theorem connect_twice_counterexample:
  "\<not> (length (transports (run never [Connect ''wss://x'' True, Connect ''wss://x'' True] new_LocationService)) = 1)
   \<and> connect ''wss://x'' True (connect ''wss://x'' True new_LocationService) \<noteq> connect ''wss://x'' True new_LocationService"
  by (simp add: new_LocationService_def connect_def Let_def)

text \<open>
  C3, amended. \<^verbatim>\<open>connect\<close> changes nothing when a socket is held and \<^verbatim>\<open>isConnected\<close>
  is set; in every other state it creates a transport and holds it as the socket; so two
  calls in a row on a new service create two transports.
\<close>

theorem connect_noop_only_when_connected:
  "(socket w \<noteq> None \<and> isConnected w \<longrightarrow> connect url enableDemo w = w)
   \<and> (\<not> (socket w \<noteq> None \<and> isConnected w) \<longrightarrow>
        transports (connect url enableDemo w) = transports w @ [url]
        \<and> socket (connect url enableDemo w) = Some (length (transports w)))
   \<and> transports (connect url e2 (connect url e1 new_LocationService)) = [url, url]"
  by (simp add: connect_def Let_def new_LocationService_def)

theorem connect_noop_only_when_connected_witness:
  "socket connectedWorld \<noteq> None \<and> isConnected connectedWorld
   \<and> connect ''wss://x'' True connectedWorld = connectedWorld
   \<and> \<not> (socket new_LocationService \<noteq> None \<and> isConnected new_LocationService)
   \<and> transports (connect ''wss://x'' True new_LocationService) = [''wss://x'']"
  using connect_noop_only_when_connected [of connectedWorld "''wss://x''" True True True]
    connect_noop_only_when_connected [of new_LocationService "''wss://x''" True True True]
  by (simp add: connectedWorld_eq new_LocationService_def)

section \<open>Inbound samples\<close>

text \<open>
  C9, as the specification states it, fails: the test payload has no timestamp, and the cached
  location has the string of \<^verbatim>\<open>toISOString\<close> as its timestamp, which is not a number.
\<close>

theorem location_default_timestamp_counterexample:
  "getCurrentLocation connectedWorld \<noteq> None
   \<and> timestamp (the (getCurrentLocation connectedWorld)) = JStr ''2025-10-11T12:00:00.000Z''
   \<and> \<not> is_number (timestamp (the (getCurrentLocation connectedWorld)))"
  by (simp add: connectedWorld_eq getCurrentLocation_def)

text \<open>
  C9, amended. When the payload of a \<^verbatim>\<open>location\<close> event has no timestamp, the cached
  location, which \<^verbatim>\<open>getCurrentLocation\<close> returns, has a defined timestamp: the ISO string
  of the arrival time, not a number; latitude and longitude are those of the payload.
\<close>

theorem location_default_timestamp_is_iso_string:
  "timestamp d = JUndefined \<longrightarrow>
     (\<exists>l. getCurrentLocation (snd (on_location bh (Some d) isoString w)) = Some l
        \<and> timestamp l = JStr isoString \<and> is_defined (timestamp l) \<and> \<not> is_number (timestamp l)
        \<and> latitude l = latitude d \<and> longitude l = longitude d)"
  by (simp add: getCurrentLocation_def on_location_def Let_def js_or_def)


theorem location_default_timestamp_is_iso_string_witness:
  "timestamp testLocation = JUndefined
   \<and> (\<exists>l. getCurrentLocation (snd (on_location never (Some testLocation)
                ''2025-10-11T12:00:00.000Z'' new_LocationService)) = Some l
        \<and> timestamp l = JStr ''2025-10-11T12:00:00.000Z'')"
  using location_default_timestamp_is_iso_string
    [of testLocation never "''2025-10-11T12:00:00.000Z''" new_LocationService]
  by (auto simp: testLocation_def)

section \<open>Demo mode\<close>

text \<open>
  C2: the code leaves the interval running. After \<^verbatim>\<open>disconnect\<close> in demo mode the
  interval is still there and the cache is null; its next tick fills the cache again, and a
  callback subscribed after the \<^verbatim>\<open>disconnect\<close> is called by it.
\<close>

theorem disconnect_leaves_demo_interval_running:
  "map fst (intervals disconnectedWorld) = [1]
   \<and> getCurrentLocation disconnectedWorld = None
   \<and> getCurrentLocation (demo_tick never 1 0.5 0.5 8000 disconnectedWorld) \<noteq> None
   \<and> calls_to 7 (run never [Subscribe 7, Tick 1 0.5 0.5 8000] disconnectedWorld) \<noteq> []"
  by (simp add: disconnectedWorld_eq getCurrentLocation_def demo_tick_def Let_def
        subscribe_def run_callback_def calls_to_def)

text \<open>
  C8: the code lets the position leave the box. After 51 ticks with the draws 0.99 and 0.5
  the published sample has latitude 25.85098, north of 25.85; it carries \<^verbatim>\<open>demo: true\<close>.
\<close>

theorem demo_walk_leaves_box:
  "latitude (the (getCurrentLocation northWorld)) = JNum 25.85098
   \<and> demo (the (getCurrentLocation northWorld)) = JBool True
   \<and> \<not> in_box (the (getCurrentLocation northWorld))"
proof -
  have i: "intervals simulatedWorld = [(1, demo_start)]" by (simp add: simulatedWorld_eq)
  have "(0::nat) < 51" by simp
  with run_ticks [OF i, of never 51 "0.99" "0.5" 8000]
  have "currentLocation (run never (replicate 51 (Tick 1 0.99 0.5 8000)) simulatedWorld)
          = Some (demo_sample ((demo_move 0.99 0.5 ^^ 51) demo_start) 8000)"
    by blast
  then have "getCurrentLocation northWorld =
      Some (demo_sample \<lparr>sim_latitude = 25.85098, sim_longitude = - 80.1994, direction = - 1\<rparr> 8000)"
    by (simp only: demo_move_51 northWorld_def getCurrentLocation_def)
  then show ?thesis
    by (simp add: demo_sample_def in_box_def)
qed

text \<open>
  C10, as the specification states it, fails when the \<^verbatim>\<open>disconnect\<close> finds no socket: demo mode
  was entered by the timer of a \<^verbatim>\<open>connect\<close> already disconnected, \<^verbatim>\<open>disconnect\<close> then
  changes nothing, and after the next \<^verbatim>\<open>connect\<close> and its timer the status is true.
\<close>

theorem stale_demo_status_counterexample:
  "isDemoMode staleDemoWorld
   \<and> \<not> (getConnectionStatus
          (run never [Disconnect, Connect ''wss://api.coco-track.com'' True, FallbackFires 9000]
             staleDemoWorld) = False)"
  by (simp add: staleDemoWorld_eq isDemoMode_def getConnectionStatus_def disconnect_def connect_def
        fallback_fires_def Let_def)

text \<open>
  C10, amended. \<^verbatim>\<open>disconnect\<close> never changes \<^verbatim>\<open>demoMode\<close>. In demo mode, when
  \<^verbatim>\<open>disconnect\<close> leaves \<^verbatim>\<open>isConnected\<close> false (a socket is held, or the flag is false
  already), after \<^verbatim>\<open>disconnect\<close> and \<^verbatim>\<open>connect\<close> the fallback timer leaves the status
  false and \<^verbatim>\<open>demoMode\<close> true, calls no callback, starts no interval and does not touch
  the cache. Along every history without \<^verbatim>\<open>disableDemoMode\<close> at most one interval is
  ever started.
\<close>

theorem demo_mode_one_shot:
  "demoMode (disconnect w) = demoMode w
   \<and> (demoMode w \<and> (socket w \<noteq> None \<or> \<not> isConnected w) \<longrightarrow>
        \<not> getConnectionStatus (fallback_fires bh now (connect url True (disconnect w)))
        \<and> demoMode (fallback_fires bh now (connect url True (disconnect w)))
        \<and> invoked (fallback_fires bh now (connect url True (disconnect w))) = invoked w
        \<and> intervals (fallback_fires bh now (connect url True (disconnect w))) = intervals w
        \<and> getCurrentLocation (fallback_fires bh now (connect url True (disconnect w)))
            = getCurrentLocation (disconnect w))
   \<and> (\<forall>es. DisableDemoMode \<notin> set es \<longrightarrow>
        length (intervals (run bh es new_LocationService)) \<le> 1
        \<and> nextTimer (run bh es new_LocationService) \<le> 2)"
proof -
  have a: "demoMode (disconnect w) = demoMode w"
    by (simp add: disconnect_def split: option.splits)
  have b: "\<not> getConnectionStatus (fallback_fires bh now (connect url True (disconnect w)))
        \<and> demoMode (fallback_fires bh now (connect url True (disconnect w)))
        \<and> invoked (fallback_fires bh now (connect url True (disconnect w))) = invoked w
        \<and> intervals (fallback_fires bh now (connect url True (disconnect w))) = intervals w
        \<and> getCurrentLocation (fallback_fires bh now (connect url True (disconnect w)))
            = getCurrentLocation (disconnect w)"
    if d: "demoMode w" and s: "socket w \<noteq> None \<or> \<not> isConnected w"
  proof (cases "socket w")
    case None
    with s have "\<not> isConnected w" by simp
    with d None show ?thesis
      by (simp add: disconnect_def getConnectionStatus_def getCurrentLocation_def
          fallback_fires_def connect_def enableDemoMode_def Let_def)
  next
    case (Some k)
    have e: "disconnect w = w\<lparr>socketCalls := socketCalls w @ [(k, SocketDisconnect)],
            socket := None, isConnected := False, listeners := [], currentLocation := None\<rparr>"
      by (simp add: disconnect_def Some)
    show ?thesis
      unfolding e using d
      by (simp add: getConnectionStatus_def getCurrentLocation_def fallback_fires_def connect_def
          enableDemoMode_def Let_def)
  qed
  have c: "length (intervals (run bh es new_LocationService)) \<le> 1
        \<and> nextTimer (run bh es new_LocationService) \<le> 2"
    if "DisableDemoMode \<notin> set es" for es
  proof -
    have "one_interval new_LocationService"
      by (simp add: one_interval_def new_LocationService_def)
    from run_one [OF this that, of bh] show ?thesis
      by (simp add: one_interval_def split: if_splits)
  qed
  from a b c show ?thesis by blast
qed

theorem demo_mode_one_shot_witness:
  "demoMode simulatedWorld \<and> socket simulatedWorld \<noteq> None
   \<and> \<not> getConnectionStatus
         (fallback_fires never 9000 (connect ''wss://x'' True (disconnect simulatedWorld)))
   \<and> DisableDemoMode \<notin> set [Connect ''wss://x'' True, FallbackFires 3000, Disconnect,
                              Connect ''wss://x'' True, FallbackFires 9000]
   \<and> length (intervals (run never [Connect ''wss://x'' True, FallbackFires 3000, Disconnect,
                              Connect ''wss://x'' True, FallbackFires 9000] new_LocationService)) \<le> 1"
proof -
  have h: "demoMode simulatedWorld \<and> socket simulatedWorld \<noteq> None"
    by (simp add: simulatedWorld_eq)
  then have h': "demoMode simulatedWorld
      \<and> (socket simulatedWorld \<noteq> None \<or> \<not> isConnected simulatedWorld)"
    by blast
  have e: "DisableDemoMode \<notin> set [Connect ''wss://x'' True, FallbackFires 3000, Disconnect,
                              Connect ''wss://x'' True, FallbackFires 9000]"
    by simp
  note t = demo_mode_one_shot [of simulatedWorld never 9000 "''wss://x''"]
  from t h' have "\<not> getConnectionStatus
         (fallback_fires never 9000 (connect ''wss://x'' True (disconnect simulatedWorld)))"
    by blast
  moreover from t e
  have "length (intervals (run never [Connect ''wss://x'' True, FallbackFires 3000, Disconnect,
                              Connect ''wss://x'' True, FallbackFires 9000] new_LocationService)) \<le> 1"
    by blast
  ultimately show ?thesis using h e by blast
qed

end
